theory Spec2Isabelle
  imports Main "HOL-Library.List_Lexorder" "HOL-Library.Product_Lexorder" "HOL-Library.Sublist"
begin

section \<open>Python strings\<close>

text \<open>
  A Python \<open>str\<close> is a sequence of Unicode code points, compared code point by code
  point. It is modelled as a list of natural numbers; \<open>lit\<close> turns a literal of the
  source into such a list.
\<close>

type_synonym pystr = "nat list"

definition lit :: "string \<Rightarrow> pystr" where
  "lit s = map of_char s"

text \<open>
  \<open>str.isspace\<close> of one character: the code points Python's \<open>str.strip()\<close> removes
  when it is called without an argument.
\<close>

definition isspace :: "nat \<Rightarrow> bool" where
  "isspace c = (c \<in> set [9, 10, 11, 12, 13, 28, 29, 30, 31, 32, 133, 160, 5760,
     8192, 8193, 8194, 8195, 8196, 8197, 8198, 8199, 8200, 8201, 8202,
     8232, 8233, 8239, 8287, 12288])"

text \<open>\<open>s.strip()\<close>: leading and trailing whitespace removed.\<close>

definition strip :: "pystr \<Rightarrow> pystr" where
  "strip s = rev (dropWhile isspace (rev (dropWhile isspace s)))"

text \<open>
  \<open>s.split(sep, 1)\<close> for a separator of one character: at most one split, at the
  first occurrence; a string without the separator comes back whole, as the only part.
\<close>

definition split_n1 :: "nat \<Rightarrow> pystr \<Rightarrow> pystr list" where
  "split_n1 sep s =
     (if sep \<in> set s
      then [takeWhile (\<lambda>c. c \<noteq> sep) s, tl (dropWhile (\<lambda>c. c \<noteq> sep) s)]
      else [s])"

definition comma :: nat where
  "comma = 44"

text \<open>The decimal numeral an f-string prints for \<open>len(...)\<close>.\<close>

function string_of_nat :: "nat \<Rightarrow> pystr" where
  "string_of_nat n =
     (if n < 10 then [48 + n] else string_of_nat (n div 10) @ [48 + n mod 10])"
  by pat_completeness auto
termination
  by (relation "measure id") auto

declare string_of_nat.simps [simp del]

section \<open>The fragment of pandas the pipeline uses\<close>

text \<open>
  A cell of a column holds a string or is null (\<open>NaN\<close> or \<open>None\<close>, which
  \<open>dropna\<close> and \<open>groupby\<close> treat alike). A raw record is the \<open>fields\<close> dictionary of
  one Airtable record: a key may be absent, or present with a null or a string value.
\<close>

type_synonym cell = "pystr option"

type_synonym raw_record = "pystr \<rightharpoonup> cell"

datatype dtype = Float64 | Object

text \<open>
  The two exceptions that pandas raises in the transform stage (nothing in the program
  reads their messages), and the exceptions that the two collaborators raise, with
  their message \<open>str(e)\<close>: \<open>NotFound\<close> is \<open>google.api_core.exceptions.NotFound\<close>,
  \<open>OtherException\<close> stands for any other subclass of \<open>Exception\<close>.
\<close>

datatype py_exception = AttributeError | ValueError

datatype service_error = NotFound pystr | OtherException pystr

text \<open>
  A data frame: the dtype of each of its columns (\<open>None\<close> for a name that is not a
  column) and its rows, each giving the cell of every column.
\<close>

record data_frame =
  dtypes :: "pystr \<rightharpoonup> dtype"
  frame_rows :: "(pystr \<Rightarrow> cell) list"

text \<open>
  \<open>pd.DataFrame(list of dicts)\<close>: one row per dictionary, one column per key that
  occurs in some dictionary; a key missing from a dictionary gives a null cell. A column
  of strings and nulls has dtype \<open>object\<close>.
\<close>

definition field_value :: "raw_record \<Rightarrow> pystr \<Rightarrow> cell" where
  "field_value r c = (case r c of None \<Rightarrow> None | Some v \<Rightarrow> v)"

definition DataFrame :: "raw_record list \<Rightarrow> data_frame" where
  "DataFrame records =
     \<lparr>dtypes = (\<lambda>c. if list_ex (\<lambda>r. r c \<noteq> None) records then Some Object else None),
      frame_rows = map field_value records\<rparr>"

text \<open>
  \<open>df.reindex(columns=cols)\<close>: exactly the columns \<open>cols\<close>; one that \<open>df\<close> does not
  have is created, all \<open>NaN\<close>, with dtype \<open>float64\<close>.
\<close>

definition reindex :: "data_frame \<Rightarrow> pystr list \<Rightarrow> data_frame" where
  "reindex df cols =
     \<lparr>dtypes = (\<lambda>c. if c \<in> set cols
                     then (case dtypes df c of None \<Rightarrow> Some Float64 | Some d \<Rightarrow> Some d)
                     else None),
      frame_rows = map (\<lambda>row c. if c \<in> set cols then row c else None) (frame_rows df)\<rparr>"

text \<open>\<open>df.dropna(subset=[c])\<close>: the rows whose cell in column \<open>c\<close> is not null.\<close>

definition dropna :: "data_frame \<Rightarrow> pystr \<Rightarrow> data_frame" where
  "dropna df c = df\<lparr>frame_rows := filter (\<lambda>row. row c \<noteq> None) (frame_rows df)\<rparr>"

text \<open>
  \<open>groupby(keys).size().reset_index(name=...)\<close> on the list of the rows' keys: one row
  per distinct key, in sorted order, with the number of rows that have this key. A row
  with a null in a key column belongs to no group (\<open>dropna=True\<close> is the default of
  \<open>groupby\<close>).
\<close>

definition size_of_groups :: "('k::linorder) list \<Rightarrow> ('k \<times> nat) list" where
  "size_of_groups ks = map (\<lambda>k. (k, count_list ks k)) (sort (remdups ks))"

fun non_null :: "cell list \<Rightarrow> pystr list" where
  "non_null [] = []"
| "non_null (None # vs) = non_null vs"
| "non_null (Some v # vs) = v # non_null vs"

definition groupby_size :: "data_frame \<Rightarrow> pystr \<Rightarrow> (pystr \<times> nat) list" where
  "groupby_size df c = size_of_groups (non_null (map (\<lambda>row. row c) (frame_rows df)))"

fun key3 :: "pystr \<Rightarrow> pystr \<Rightarrow> pystr \<Rightarrow> (pystr \<Rightarrow> cell) \<Rightarrow> (pystr \<times> pystr \<times> pystr) list" where
  "key3 c1 c2 c3 row =
     (case (row c1, row c2, row c3) of
        (Some a, Some b, Some c) \<Rightarrow> [(a, b, c)]
      | _ \<Rightarrow> [])"

definition groupby3_size ::
  "data_frame \<Rightarrow> pystr \<Rightarrow> pystr \<Rightarrow> pystr \<Rightarrow> ((pystr \<times> pystr \<times> pystr) \<times> nat) list" where
  "groupby3_size df c1 c2 c3 = size_of_groups (concat (map (key3 c1 c2 c3) (frame_rows df)))"

text \<open>
  \<open>df[c].str\<close>: the string accessor exists for a column of dtype \<open>object\<close> (of strings,
  or empty) and raises \<open>AttributeError\<close> for a \<open>float64\<close> column, also for an empty one.
\<close>

definition str_accessor :: "data_frame \<Rightarrow> pystr \<Rightarrow> py_exception + cell list" where
  "str_accessor df c =
     (if dtypes df c = Some Object then Inr (map (\<lambda>row. row c) (frame_rows df))
      else Inl AttributeError)"

text \<open>
  \<open>.str.split(',', expand=True, n=1)\<close>: the parts of each string, as a frame with as
  many columns as the longest list of parts (none for no rows at all); a shorter list
  is filled with \<open>None\<close>. The result is given as the list of parts per row.
\<close>

definition str_split_expand :: "cell list \<Rightarrow> cell list list" where
  "str_split_expand vs =
     map (\<lambda>v. case v of None \<Rightarrow> [None] | Some s \<Rightarrow> map Some (split_n1 comma s)) vs"

definition expand_width :: "cell list list \<Rightarrow> nat" where
  "expand_width parts = fold max (map length parts) 0"

definition part :: "cell list \<Rightarrow> nat \<Rightarrow> cell" where
  "part ps i = (if i < length ps then ps ! i else None)"

text \<open>
  \<open>df[[c1, c2]] = parts\<close>: the assignment of a frame to two columns raises
  \<open>ValueError\<close> (columns must be same length as key) unless the frame has two columns.
\<close>

definition setitem2 ::
  "data_frame \<Rightarrow> pystr \<Rightarrow> pystr \<Rightarrow> cell list list \<Rightarrow> py_exception + data_frame" where
  "setitem2 df c1 c2 parts =
     (if expand_width parts \<noteq> 2
      then Inl ValueError
      else Inr \<lparr>dtypes = (dtypes df)(c1 \<mapsto> Object, c2 \<mapsto> Object),
                frame_rows = map (\<lambda>(row, ps). row(c1 := part ps 0, c2 := part ps 1))
                               (zip (frame_rows df) parts)\<rparr>)"

text \<open>\<open>df[c] = f(df[src])\<close>, cell by cell, and \<open>df[c] = constant\<close>.\<close>

definition setitem_map :: "data_frame \<Rightarrow> pystr \<Rightarrow> (cell \<Rightarrow> cell) \<Rightarrow> pystr \<Rightarrow> data_frame" where
  "setitem_map df c f src =
     \<lparr>dtypes = (dtypes df)(c \<mapsto> Object),
      frame_rows = map (\<lambda>row. row(c := f (row src))) (frame_rows df)\<rparr>"

definition setitem_const :: "data_frame \<Rightarrow> pystr \<Rightarrow> pystr \<Rightarrow> data_frame" where
  "setitem_const df c v =
     \<lparr>dtypes = (dtypes df)(c \<mapsto> Object),
      frame_rows = map (\<lambda>row. row(c := Some v)) (frame_rows df)\<rparr>"

text \<open>\<open>.str.strip()\<close> of one cell: a null stays null.\<close>

definition str_strip :: "cell \<Rightarrow> cell" where
  "str_strip v = map_option strip v"

section \<open>The transform stage of \<open>run_etl\<close>\<close>

definition safe_columns :: "pystr list" where
  "safe_columns = [lit ''Current Company'', lit ''Current Title'', lit ''Location'',
     lit ''Major'', lit ''Graduation Year'']"

definition df_safe :: "raw_record list \<Rightarrow> data_frame" where
  "df_safe records = reindex (DataFrame records) safe_columns"

text \<open>
  T1 to T3. Each table is the list of its rows, (key, count); the renaming of the key
  column is applied where the table is handed to the loader.
\<close>

definition stats_company :: "raw_record list \<Rightarrow> (pystr \<times> nat) list" where
  "stats_company records =
     groupby_size (dropna (df_safe records) (lit ''Current Company'')) (lit ''Current Company'')"

definition stats_jobs :: "raw_record list \<Rightarrow> (pystr \<times> nat) list" where
  "stats_jobs records =
     groupby_size (dropna (df_safe records) (lit ''Current Title'')) (lit ''Current Title'')"

definition stats_major :: "raw_record list \<Rightarrow> (pystr \<times> nat) list" where
  "stats_major records =
     groupby_size (dropna (df_safe records) (lit ''Major'')) (lit ''Major'')"

text \<open>
  T4. A row of the table is ((country, state, city), count). The two \<open>.str.strip()\<close>
  calls read columns that the assignment before them has filled with strings, so their
  accessor does not raise.
\<close>

definition stats_location ::
  "raw_record list \<Rightarrow> py_exception + ((pystr \<times> pystr \<times> pystr) \<times> nat) list" where
  "stats_location records =
     (let df_location = dropna (df_safe records) (lit ''Location'') in
      case str_accessor df_location (lit ''Location'') of
        Inl e \<Rightarrow> Inl e
      | Inr locations \<Rightarrow>
          (case setitem2 df_location (lit ''city'') (lit ''state_raw'')
                  (str_split_expand locations) of
             Inl e \<Rightarrow> Inl e
           | Inr df1 \<Rightarrow>
               (let df2 = setitem_map df1 (lit ''city'') str_strip (lit ''city'');
                    df3 = setitem_map df2 (lit ''state'') str_strip (lit ''state_raw'');
                    df4 = setitem_const df3 (lit ''country'') (lit ''United States'')
                in Inr (groupby3_size df4 (lit ''country'') (lit ''state'') (lit ''city'')))))"


section \<open>The world outside the process\<close>

text \<open>
  A table as the warehouse stores it: the column names and the rows, each a list of
  values. \<open>frame1\<close> and \<open>frame3\<close> give the frames that \<open>reset_index(name=...)\<close> (and,
  for the first three tables, \<open>rename\<close>) produce from the groups and their sizes.
\<close>

datatype val = StrVal pystr | IntVal nat

record table =
  columns :: "pystr list"
  body :: "val list list"

definition frame1 :: "pystr \<Rightarrow> pystr \<Rightarrow> (pystr \<times> nat) list \<Rightarrow> table" where
  "frame1 key_name count_name groups =
     \<lparr>columns = [key_name, count_name],
      body = map (\<lambda>(k, n). [StrVal k, IntVal n]) groups\<rparr>"

definition frame3 :: "((pystr \<times> pystr \<times> pystr) \<times> nat) list \<Rightarrow> table" where
  "frame3 groups =
     \<lparr>columns = [lit ''country'', lit ''state'', lit ''city'', lit ''alumni_count''],
      body = map (\<lambda>((a, b, c), n). [StrVal a, StrVal b, StrVal c, IntVal n]) groups\<rparr>"

text \<open>
  The calls the process makes to its two collaborators, the console and the tables of
  the warehouse are the state of the world; \<open>calls\<close> and \<open>console\<close> are oldest first.
\<close>

datatype call =
    AirtableInit "pystr option" "pystr option" "pystr option"
  | BigQueryInit
  | AirtableGetAll
  | BigQueryLoad pystr table

record world =
  console :: "pystr list"
  calls :: "call list"
  warehouse :: "pystr \<rightharpoonup> table"

text \<open>
  What the collaborators answer: whether the construction of each client raises, what
  \<open>airtable.get_all()\<close> returns (the \<open>fields\<close> of the records) or raises, and whether
  the load job for a table id raises (\<open>load_table_from_dataframe\<close> or \<open>job.result()\<close>).
\<close>

record services =
  airtable_init :: "service_error option"
  bigquery_init :: "service_error option"
  get_all :: "service_error + raw_record list"
  load_job :: "pystr \<Rightarrow> service_error option"

definition py_print :: "pystr \<Rightarrow> world \<Rightarrow> world" where
  "py_print s w = w\<lparr>console := console w @ [s]\<rparr>"

definition external_call :: "call \<Rightarrow> world \<Rightarrow> world" where
  "external_call c w = w\<lparr>calls := calls w @ [c]\<rparr>"

definition str_of_exception :: "service_error \<Rightarrow> pystr" where
  "str_of_exception e = (case e of NotFound m \<Rightarrow> m | OtherException m \<Rightarrow> m)"

text \<open>The three non-ASCII markers of the messages, as code points.\<close>

definition cross_mark :: pystr where
  "cross_mark = [10060]"

definition check_mark :: pystr where
  "check_mark = [9989]"

definition tree_mark :: pystr where
  "tree_mark = [9492, 9472, 9472]"

section \<open>Module setup\<close>

text \<open>
  \<open>load_dotenv()\<close> adds the variables of the \<open>.env\<close> file to the environment and
  leaves the ones that are already set.
\<close>

definition load_dotenv :: "(pystr \<rightharpoonup> pystr) \<Rightarrow> (pystr \<rightharpoonup> pystr) \<Rightarrow> (pystr \<rightharpoonup> pystr)" where
  "load_dotenv dotenv environ = dotenv ++ environ"

record config =
  AIRTABLE_BASE_ID :: "pystr option"
  AIRTABLE_TABLE_NAME :: "pystr option"
  AIRTABLE_API_KEY :: "pystr option"
  GCP_PROJECT_ID :: "pystr option"
  BIGQUERY_DATASET_ID :: "pystr option"

definition getenv_config :: "(pystr \<rightharpoonup> pystr) \<Rightarrow> config" where
  "getenv_config environ =
     \<lparr>AIRTABLE_BASE_ID = environ (lit ''AIRTABLE_BASE_ID''),
      AIRTABLE_TABLE_NAME = environ (lit ''AIRTABLE_TABLE_NAME''),
      AIRTABLE_API_KEY = environ (lit ''AIRTABLE_API_KEY''),
      GCP_PROJECT_ID = environ (lit ''GCP_PROJECT_ID''),
      BIGQUERY_DATASET_ID = environ (lit ''BIGQUERY_DATASET_ID'')\<rparr>"

text \<open>Truth value of an \<open>os.getenv\<close> result: \<open>None\<close> and the empty string are false.\<close>

definition truthy :: "pystr option \<Rightarrow> bool" where
  "truthy v = (case v of None \<Rightarrow> False | Some s \<Rightarrow> s \<noteq> [])"

definition all_keys_present :: "config \<Rightarrow> bool" where
  "all_keys_present cfg =
     list_all truthy [AIRTABLE_BASE_ID cfg, AIRTABLE_TABLE_NAME cfg, AIRTABLE_API_KEY cfg,
       GCP_PROJECT_ID cfg, BIGQUERY_DATASET_ID cfg]"

definition missing_line1 :: pystr where
  "missing_line1 = cross_mark @
     lit '' ERROR: One or more environment variables are missing from your .env file.''"

definition missing_line2 :: pystr where
  "missing_line2 = lit ''Please check all 5 variables (AIRTABLE_BASE_ID, AIRTABLE_TABLE_NAME, AIRTABLE_API_KEY, GCP_PROJECT_ID, BIGQUERY_DATASET_ID).''"

text \<open>
  The module's top level, lines 13 to 42. The result is \<open>None\<close> when \<open>exit()\<close> was
  called, and the configuration when the module went on to define its functions.
\<close>

definition init_failed :: "service_error \<Rightarrow> world \<Rightarrow> world" where
  "init_failed e w =
     py_print (cross_mark @ lit '' ERROR: Failed to initialize clients. '' @ str_of_exception e) w"

definition module_setup ::
  "(pystr \<rightharpoonup> pystr) \<Rightarrow> (pystr \<rightharpoonup> pystr) \<Rightarrow> services \<Rightarrow> world \<Rightarrow> config option \<times> world" where
  "module_setup dotenv environ sv w0 =
     (let w1 = py_print (lit ''Loading environment variables...'') w0;
          cfg = getenv_config (load_dotenv dotenv environ)
      in if \<not> all_keys_present cfg
         then (None, py_print missing_line2 (py_print missing_line1 w1))
         else
           (let w2 = py_print (lit ''Connecting to Airtable...'') w1;
                w3 = external_call
                       (AirtableInit (AIRTABLE_BASE_ID cfg) (AIRTABLE_TABLE_NAME cfg)
                          (AIRTABLE_API_KEY cfg)) w2
            in case airtable_init sv of
                 Some e \<Rightarrow> (None, init_failed e w3)
               | None \<Rightarrow>
                   (let w4 = py_print (lit ''Connecting to BigQuery...'') w3;
                        w5 = external_call BigQueryInit w4
                    in case bigquery_init sv of
                         Some e \<Rightarrow> (None, init_failed e w5)
                       | None \<Rightarrow> (Some cfg, py_print (lit ''Connections initialized.'') w5))))"

section \<open>The loader\<close>

text \<open>A value in an f-string: \<open>None\<close> prints as \<open>None\<close>.\<close>

definition fmt :: "pystr option \<Rightarrow> pystr" where
  "fmt v = (case v of None \<Rightarrow> lit ''None'' | Some s \<Rightarrow> s)"

definition table_id_of :: "config \<Rightarrow> pystr \<Rightarrow> pystr" where
  "table_id_of cfg table_name =
     fmt (GCP_PROJECT_ID cfg) @ lit ''.'' @ fmt (BIGQUERY_DATASET_ID cfg) @ lit ''.'' @ table_name"

text \<open>
  \<open>load_dataframe_to_bigquery\<close>: a load job with \<open>WRITE_TRUNCATE\<close> replaces the table
  when it succeeds and leaves the warehouse as it was when it raises. Both handlers
  print and return, so the function returns.
\<close>

definition load_dataframe_to_bigquery ::
  "config \<Rightarrow> services \<Rightarrow> table \<Rightarrow> pystr \<Rightarrow> world \<Rightarrow> world" where
  "load_dataframe_to_bigquery cfg sv dataframe table_name w0 =
     (let table_id = table_id_of cfg table_name;
          w1 = py_print (lit ''  Loading '' @ string_of_nat (length (body dataframe))
                 @ lit '' rows into '' @ table_id @ lit ''...'') w0;
          w2 = external_call (BigQueryLoad table_id dataframe) w1
      in case load_job sv table_id of
           None \<Rightarrow>
             py_print (lit ''  '' @ check_mark @ lit '' SUCCESS: Load complete for '' @ table_id)
               (w2\<lparr>warehouse := (warehouse w2)(table_id \<mapsto> dataframe)\<rparr>)
         | Some (NotFound m) \<Rightarrow>
             py_print (lit ''  '' @ tree_mark @ lit '' Details: '' @ m)
               (py_print (lit ''  '' @ cross_mark @ lit '' ERROR: '' @ table_id
                  @ lit '' failed to load. The dataset '' @ [39] @ fmt (BIGQUERY_DATASET_ID cfg)
                  @ [39] @ lit '' might not exist.'') w2)
         | Some e \<Rightarrow>
             py_print (lit ''  '' @ tree_mark @ lit '' Details: '' @ str_of_exception e)
               (py_print (lit ''  '' @ cross_mark @ lit '' ERROR: '' @ table_id
                  @ lit '' failed to load.'') w2))"

section \<open>The pipeline\<close>

text \<open>
  \<open>run_etl\<close> returns \<open>None\<close> (after the last load, or early when the extraction
  failed) or an exception leaves it. Its three stages are given one definition each.
\<close>

datatype result = Returned | Raised py_exception

text \<open>
  The transform stage, lines 102 to 151: the four frames, or the exception that the
  location step raises, with the console as it is then.
\<close>

definition processed_line :: "nat \<Rightarrow> string \<Rightarrow> pystr" where
  "processed_line n what =
     lit ''  Processed '' @ string_of_nat n @ lit '' '' @ lit what @ lit '' aggregates.''"

definition transform ::
  "raw_record list \<Rightarrow> world \<Rightarrow> py_exception \<times> world + (table \<times> table \<times> table \<times> table) \<times> world" where
  "transform records w0 =
     (let w1 = py_print (10 # lit ''--- TRANSFORM ---'') w0;
          w2 = py_print (lit ''Starting: Anonymizing and aggregating data...'') w1;
          company = frame1 (lit ''company_name'') (lit ''alumni_count'') (stats_company records);
          w3 = py_print (processed_line (length (body company)) ''Company'') w2;
          jobs = frame1 (lit ''job_title'') (lit ''job_count'') (stats_jobs records);
          w4 = py_print (processed_line (length (body jobs)) ''Job Title'') w3;
          major = frame1 (lit ''major'') (lit ''major_count'') (stats_major records);
          w5 = py_print (processed_line (length (body major)) ''Major'') w4
      in case stats_location records of
           Inl e \<Rightarrow> Inl (e, w5)
         | Inr groups \<Rightarrow>
             (let location = frame3 groups;
                  w6 = py_print (processed_line (length (body location)) ''Location'') w5;
                  w7 = py_print (lit ''Transformation complete.'') w6
              in Inr ((company, jobs, major, location), w7)))"

text \<open>The load stage, lines 156 to 165.\<close>

definition load_all :: "config \<Rightarrow> services \<Rightarrow> table \<times> table \<times> table \<times> table \<Rightarrow> world \<Rightarrow> world" where
  "load_all cfg sv frames w0 =
     (case frames of (company, jobs, major, location) \<Rightarrow>
        (let w1 = py_print (10 # lit ''--- LOAD ---'') w0;
             w2 = py_print (lit ''Starting: Loading all aggregated tables to BigQuery...'') w1;
             w3 = load_dataframe_to_bigquery cfg sv company (lit ''stats_company'') w2;
             w4 = load_dataframe_to_bigquery cfg sv jobs (lit ''stats_job_title'') w3;
             w5 = load_dataframe_to_bigquery cfg sv major (lit ''stats_major'') w4;
             w6 = load_dataframe_to_bigquery cfg sv location (lit ''stats_location'') w5
         in py_print (10 # lit ''ETL pipeline finished successfully!'') w6))"

definition extract_failed :: "service_error \<Rightarrow> world \<Rightarrow> world" where
  "extract_failed e w =
     py_print (lit ''   '' @ tree_mark @ lit '' Details: '' @ str_of_exception e)
       (py_print (cross_mark @ lit '' ERROR: Failed to extract from Airtable. Check your Token, Base ID, and Table Name.'') w)"

definition run_etl :: "config \<Rightarrow> services \<Rightarrow> world \<Rightarrow> result \<times> world" where
  "run_etl cfg sv w0 =
     (let w1 = py_print (10 # lit ''--- EXTRACT ---'') w0;
          w2 = py_print (lit ''Starting: Fetching all records from Airtable...'') w1;
          w3 = external_call AirtableGetAll w2
      in case get_all sv of
           Inl e \<Rightarrow> (Returned, extract_failed e w3)
         | Inr records \<Rightarrow>
             (let w4 = py_print (lit ''Successfully extracted '' @ string_of_nat (length records)
                         @ lit '' raw records.'') w3
              in case transform records w4 of
                   Inl (e, w5) \<Rightarrow> (Raised e, w5)
                 | Inr (frames, w5) \<Rightarrow> (Returned, load_all cfg sv frames w5)))"

text \<open>
  The process: the module's top level, then \<open>run_etl()\<close>. \<open>None\<close> is the process that
  called \<open>exit()\<close> during setup.
\<close>

definition main :: "(pystr \<rightharpoonup> pystr) \<Rightarrow> (pystr \<rightharpoonup> pystr) \<Rightarrow> services \<Rightarrow> world \<Rightarrow> result option \<times> world" where
  "main dotenv environ sv w0 =
     (case module_setup dotenv environ sv w0 of
        (None, w) \<Rightarrow> (None, w)
      | (Some cfg, w) \<Rightarrow> (case run_etl cfg sv w of (r, w') \<Rightarrow> (Some r, w')))"

section \<open>Notions of the specification\<close>

text \<open>
  The keys a \<open>Location\<close> cell contributes to the location table, and whether the cell
  holds a string with a comma.
\<close>

definition location_keys :: "cell \<Rightarrow> (pystr \<times> pystr \<times> pystr) list" where
  "location_keys v =
     (case v of
        None \<Rightarrow> []
      | Some s \<Rightarrow>
          if comma \<in> set s
          then [(lit ''United States'', strip (tl (dropWhile (\<lambda>c. c \<noteq> comma) s)),
                 strip (takeWhile (\<lambda>c. c \<noteq> comma) s))]
          else [])"

definition has_comma :: "cell \<Rightarrow> bool" where
  "has_comma v = (case v of None \<Rightarrow> False | Some s \<Rightarrow> comma \<in> set s)"

text \<open>A string without leading or trailing whitespace.\<close>

definition trimmed :: "pystr \<Rightarrow> bool" where
  "trimmed t = (t = [] \<or> (\<not> isspace (hd t) \<and> \<not> isspace (last t)))"

text \<open>The records of the scenario in section 8 of the specification.\<close>

definition scenario_records :: "raw_record list" where
  "scenario_records =
     [[lit ''Current Company'' \<mapsto> Some (lit ''Acme''), lit ''Location'' \<mapsto> Some (lit ''Austin, TX'')],
      [lit ''Current Company'' \<mapsto> Some (lit ''Acme''), lit ''Location'' \<mapsto> Some (lit ''Dallas, TX'')],
      [lit ''Current Company'' \<mapsto> None, lit ''Location'' \<mapsto> Some (lit ''Austin, TX'')]]"



text \<open>The five names the module reads from the environment, and the four table names.\<close>

definition config_names :: "pystr list" where
  "config_names = [lit ''AIRTABLE_BASE_ID'', lit ''AIRTABLE_TABLE_NAME'', lit ''AIRTABLE_API_KEY'',
     lit ''GCP_PROJECT_ID'', lit ''BIGQUERY_DATASET_ID'']"

definition table_names :: "pystr list" where
  "table_names = [lit ''stats_company'', lit ''stats_job_title'', lit ''stats_major'',
     lit ''stats_location'']"

text \<open>
  A failed load of a table is logged when the console holds a line that starts with the
  error message and the table id, as the lines of both handlers do.
\<close>

definition load_failure_logged :: "config \<Rightarrow> pystr \<Rightarrow> world \<Rightarrow> bool" where
  "load_failure_logged cfg table_name w =
     list_ex (prefix (lit ''  '' @ cross_mark @ lit '' ERROR: '' @ table_id_of cfg table_name
                @ lit '' failed to load.'')) (console w)"

text \<open>Inputs for the examples: a world, collaborators that do not fail, an environment.\<close>

definition empty_world :: world where
  "empty_world = \<lparr>console = [], calls = [], warehouse = Map.empty\<rparr>"

definition healthy_services :: "raw_record list \<Rightarrow> services" where
  "healthy_services records =
     \<lparr>airtable_init = None, bigquery_init = None, get_all = Inr records,
      load_job = (\<lambda>table_id. None)\<rparr>"

definition full_environ :: "pystr \<rightharpoonup> pystr" where
  "full_environ =
     [lit ''AIRTABLE_BASE_ID'' \<mapsto> lit ''appBase'', lit ''AIRTABLE_TABLE_NAME'' \<mapsto> lit ''Alumni'',
      lit ''AIRTABLE_API_KEY'' \<mapsto> lit ''key'', lit ''GCP_PROJECT_ID'' \<mapsto> lit ''proj'',
      lit ''BIGQUERY_DATASET_ID'' \<mapsto> lit ''alumni'']"

text \<open>Collaborators whose load job fails for the table \<open>stats_major\<close> only.\<close>

definition major_load_fails :: services where
  "major_load_fails =
     (healthy_services scenario_records)
       \<lparr>load_job := (\<lambda>table_id. if table_id = lit ''proj.alumni.stats_major''
                         then Some (NotFound (lit ''404 Not found: Dataset proj:alumni''))
                         else None)\<rparr>"

section \<open>Counting lemmas\<close>

lemma size_of_groups_sum: "sum_list (map snd (size_of_groups ks)) = length ks"
proof -
  have "sum_list (map snd (size_of_groups ks)) = sum_list (map (count_list ks) (sort (remdups ks)))"
    by (simp add: size_of_groups_def comp_def)
  also have "\<dots> = sum (count_list ks) (set (sort (remdups ks)))"
    by (rule sum_list_distinct_conv_sum_set) simp
  also have "\<dots> = length ks"
    by (simp add: sum_count_set)
  finally show ?thesis .
qed

lemma non_null_length: "length (non_null vs) = length (filter (\<lambda>v. v \<noteq> None) vs)"
  by (induction vs rule: non_null.induct) auto

lemma df_safe_rows:
  "c \<in> set safe_columns \<Longrightarrow>
   map (\<lambda>row. row c) (frame_rows (df_safe records)) = map (\<lambda>r. field_value r c) records"
  by (simp add: df_safe_def reindex_def DataFrame_def comp_def)

lemma dropna_column:
  "map (\<lambda>row. row c) (frame_rows (dropna df c)) = filter (\<lambda>v. v \<noteq> None) (map (\<lambda>row. row c) (frame_rows df))"
  by (simp add: dropna_def filter_map comp_def)

lemma non_null_filter: "non_null (filter (\<lambda>v. v \<noteq> None) vs) = non_null vs"
  by (induction vs rule: non_null.induct) auto

lemma non_null_filter_ex: "non_null (filter (\<lambda>v. \<exists>y. v = Some y) vs) = non_null vs"
  by (induction vs rule: non_null.induct) auto

lemma groupby_dropna_safe:
  "c \<in> set safe_columns \<Longrightarrow>
   groupby_size (dropna (df_safe records) c) c =
   size_of_groups (non_null (map (\<lambda>r. field_value r c) records))"
  by (simp add: groupby_size_def dropna_column df_safe_rows non_null_filter_ex)

lemma groupby_dropna_sum:
  "c \<in> set safe_columns \<Longrightarrow>
   sum_list (map snd (groupby_size (dropna (df_safe records) c) c)) =
   length (filter (\<lambda>r. field_value r c \<noteq> None) records)"
  by (simp add: groupby_dropna_safe size_of_groups_sum non_null_length filter_map comp_def)

lemma safe_columns_mem:
  "lit ''Current Company'' \<in> set safe_columns"
  "lit ''Current Title'' \<in> set safe_columns"
  "lit ''Location'' \<in> set safe_columns"
  "lit ''Major'' \<in> set safe_columns"
  by (simp_all add: safe_columns_def)

section \<open>The location step\<close>

lemma lit_eq_iff: "lit a = lit b \<longleftrightarrow> a = b"
  unfolding lit_def by (rule inj_map_eq_map) (simp add: inj_def)

lemma zip_map_same: "zip xs (map f xs) = map (\<lambda>x. (x, f x)) xs"
  by (induction xs) auto

lemma split_n1_length: "length (split_n1 sep s) = (if sep \<in> set s then 2 else 1)"
  by (simp add: split_n1_def)

lemma expand_width_split:
  "expand_width (str_split_expand vs) = 2 \<longleftrightarrow> list_ex has_comma vs"
proof -
  have len: "\<And>v. length (case v of None \<Rightarrow> [None] | Some s \<Rightarrow> map Some (split_n1 comma s)) = (if has_comma v then 2 else 1)"
    by (simp add: has_comma_def split_n1_length split: option.splits)
  have "fold max (map (\<lambda>v. if has_comma v then 2 else 1) vs) (m::nat) = 2 \<longleftrightarrow> (m = 2 \<or> list_ex has_comma vs) \<and> m \<le> 2" for m
    by (induction vs arbitrary: m) (auto simp: max_def)
  from this [of 0] show ?thesis
    by (simp add: expand_width_def str_split_expand_def comp_def len)
qed

lemma df_location_rows:
  "frame_rows (dropna (df_safe rs) (lit ''Location'')) =
   filter (\<lambda>row. row (lit ''Location'') \<noteq> None)
     (map (\<lambda>r c. if c \<in> set safe_columns then field_value r c else None) rs)"
  by (simp add: dropna_def df_safe_def reindex_def DataFrame_def comp_def)

lemma df_location_dtype:
  "dtypes (dropna (df_safe rs) (lit ''Location'')) (lit ''Location'') =
   (if list_ex (\<lambda>r. r (lit ''Location'') \<noteq> None) rs then Some Object else Some Float64)"
  by (simp add: dropna_def df_safe_def reindex_def DataFrame_def safe_columns_mem)

lemma takeWhile_no_sep: "sep \<notin> set s \<Longrightarrow> takeWhile (\<lambda>c. c \<noteq> sep) s = s"
  by (induction s) auto

lemma stats_location_char:
  "stats_location rs =
     (if \<not> list_ex (\<lambda>r. r (lit ''Location'') \<noteq> None) rs then Inl AttributeError
      else if \<not> list_ex (\<lambda>r. has_comma (field_value r (lit ''Location''))) rs
      then Inl ValueError
      else Inr (size_of_groups (concat (map (\<lambda>r. location_keys (field_value r (lit ''Location''))) rs))))"
proof -
  let ?L = "lit ''Location''"
  let ?df = "dropna (df_safe rs) ?L"
  let ?rows = "frame_rows ?df"
  let ?G = "\<lambda>row::pystr \<Rightarrow> cell. case row ?L of None \<Rightarrow> [None] | Some s \<Rightarrow> map Some (split_n1 comma s)"
  have cells: "map (\<lambda>row. row ?L) ?rows = filter (\<lambda>v. v \<noteq> None) (map (\<lambda>r. field_value r ?L) rs)"
    by (simp add: df_location_rows filter_map comp_def safe_columns_mem)
  have ex: "list_ex has_comma (map (\<lambda>row. row ?L) ?rows) = list_ex (\<lambda>r. has_comma (field_value r ?L)) rs"
    unfolding cells by (auto simp: list_ex_iff has_comma_def split: option.splits)
  have parts: "str_split_expand (map (\<lambda>row. row ?L) ?rows) = map ?G ?rows"
    by (simp add: str_split_expand_def comp_def)
  have width: "expand_width (map ?G ?rows) = 2 \<longleftrightarrow> list_ex (\<lambda>r. has_comma (field_value r ?L)) rs"
    using expand_width_split [of "map (\<lambda>row. row ?L) ?rows"] by (simp only: parts ex)
  have keys: "concat (map (\<lambda>row. location_keys (row ?L)) ?rows) =
      concat (map (\<lambda>r. location_keys (field_value r ?L)) rs)"
    unfolding df_location_rows
    by (induction rs) (auto simp: location_keys_def safe_columns_mem)
  have rowkey: "\<And>row. (case (part (?G row) 1, part (?G row) 0) of
        (Some b, Some a) \<Rightarrow> [(lit ''United States'', strip b, strip a)] | _ \<Rightarrow> []) = location_keys (row ?L)"
    subgoal for row
      by (cases "row ?L") (auto simp: part_def split_n1_def takeWhile_no_sep location_keys_def)
    done
  show ?thesis
  proof (cases "list_ex (\<lambda>r. r ?L \<noteq> None) rs")
    case False
    then show ?thesis
      by (simp add: stats_location_def str_accessor_def df_location_dtype Let_def)
  next
    case True
    then have acc: "str_accessor ?df ?L = Inr (map (\<lambda>row. row ?L) ?rows)"
      by (simp add: str_accessor_def df_location_dtype)
    show ?thesis
    proof (cases "list_ex (\<lambda>r. has_comma (field_value r ?L)) rs")
      case False
      with True show ?thesis
        unfolding stats_location_def Let_def acc
        by (simp add: setitem2_def parts width)
    next
      case c: True
      have "stats_location rs = Inr (size_of_groups (concat (map (\<lambda>row. location_keys (row ?L)) ?rows)))"
        unfolding stats_location_def Let_def acc
        apply (simp add: setitem2_def width c parts zip_map_same
            setitem_map_def setitem_const_def groupby3_size_def comp_def lit_eq_iff
            del: key3.simps)
        apply (rule arg_cong [where f = size_of_groups])
        apply (rule arg_cong [where f = concat])
        apply (rule map_cong [OF refl])
        subgoal for row
          by (cases "row ?L")
            (auto simp: lit_eq_iff part_def split_n1_def takeWhile_no_sep location_keys_def
              str_strip_def)
        done
      with True c show ?thesis by (simp add: keys)
    qed
  qed
qed


section \<open>Strings and groups\<close>

lemma isspace_space: "isspace 32" by (simp add: isspace_def)
lemma isspace_comma: "\<not> isspace comma" by (simp add: isspace_def comma_def)

lemma rev_dropWhile_takeWhile:
  "rev (dropWhile P (rev xs)) @ rev (takeWhile P (rev xs)) = xs"
proof -
  have "rev (takeWhile P (rev xs) @ dropWhile P (rev xs)) = xs"
    by (simp only: takeWhile_dropWhile_id rev_rev_ident)
  then show ?thesis by (simp only: rev_append)
qed

lemma strip_decomp:
  "s = takeWhile isspace s @ strip s @ rev (takeWhile isspace (rev (dropWhile isspace s)))"
proof -
  have "takeWhile isspace s @ dropWhile isspace s = s"
    by (rule takeWhile_dropWhile_id)
  then show ?thesis
    by (simp only: strip_def rev_dropWhile_takeWhile)
qed

lemma strip_surround:
  "\<exists>w1 w2. list_all isspace w1 \<and> list_all isspace w2 \<and> s = w1 @ strip s @ w2"
proof (intro exI conjI)
  show "s = takeWhile isspace s @ strip s @ rev (takeWhile isspace (rev (dropWhile isspace s)))"
    by (rule strip_decomp)
  show "list_all isspace (takeWhile isspace s)"
    by (simp add: list_all_iff) (meson set_takeWhileD)
  show "list_all isspace (rev (takeWhile isspace (rev (dropWhile isspace s))))"
    by (simp add: list_all_iff) (meson set_takeWhileD)
qed

lemma filter_spaces: "list_all isspace w \<Longrightarrow> filter (\<lambda>c. \<not> isspace c) w = []"
  by (induction w) auto

lemma strip_trimmed: "trimmed (strip s)"
proof (cases "strip s = []")
  case True
  then show ?thesis by (simp add: trimmed_def)
next
  case False
  let ?d = "dropWhile isspace s"
  let ?e = "dropWhile isspace (rev ?d)"
  have e: "?e \<noteq> []" and st: "strip s = rev ?e"
    using False by (simp_all add: strip_def)
  have "\<not> isspace (hd ?e)"
    using e by (rule hd_dropWhile)
  then have l: "\<not> isspace (last (strip s))"
    using e by (simp add: st last_rev)
  have d: "?d = strip s @ rev (takeWhile isspace (rev ?d))"
    by (simp only: strip_def rev_dropWhile_takeWhile)
  then have "?d \<noteq> []" using False by (metis append_is_Nil_conv)
  then have "\<not> isspace (hd ?d)" by (rule hd_dropWhile)
  moreover have "hd ?d = hd (strip s)"
    using False by (subst d) simp
  ultimately show ?thesis using l by (simp add: trimmed_def)
qed

lemma trimmed_strip: "trimmed t \<Longrightarrow> strip t = t"
proof (cases "t = []")
  case True
  then show ?thesis by (simp add: strip_def)
next
  case False
  assume "trimmed t"
  with False have h: "\<not> isspace (hd t)" and l: "\<not> isspace (last t)"
    by (simp_all add: trimmed_def)
  from False h have 1: "dropWhile isspace t = t"
    by (simp add: dropWhile_eq_self_iff)
  from False l have 2: "dropWhile isspace (rev t) = rev t"
    by (simp add: dropWhile_eq_self_iff hd_rev)
  show ?thesis by (simp add: strip_def 1 2)
qed

lemma strip_idem: "strip (strip s) = strip s"
  by (rule trimmed_strip) (rule strip_trimmed)

lemma strip_space_Cons: "strip (32 # t) = strip t"
  by (simp add: strip_def isspace_space)

lemma set_strip: "set (strip s) \<subseteq> set s"
  by (auto simp: strip_def dest!: set_dropWhileD)

lemma split_n1_comma:
  "sep \<in> set s \<Longrightarrow> \<exists>a b. split_n1 sep s = [a, b] \<and> s = a @ [sep] @ b \<and> sep \<notin> set a"
proof -
  assume m: "sep \<in> set s"
  let ?a = "takeWhile (\<lambda>c. c \<noteq> sep) s"
  let ?d = "dropWhile (\<lambda>c. c \<noteq> sep) s"
  have "?d \<noteq> []" using m by (simp add: dropWhile_eq_Nil_conv) 
  moreover from this have "hd ?d = sep" using hd_dropWhile [of "\<lambda>c. c \<noteq> sep" s] by simp
  ultimately have "?d = sep # tl ?d" by (cases ?d) auto
  then have "s = ?a @ [sep] @ tl ?d"
    using takeWhile_dropWhile_id [of "\<lambda>c. c \<noteq> sep" s] by simp
  moreover have "sep \<notin> set ?a" by (auto dest: set_takeWhileD)
  ultimately show ?thesis using m by (auto simp: split_n1_def)
qed

lemma split_n1_append:
  "sep \<notin> set a \<Longrightarrow> split_n1 sep (a @ sep # b) = [a, b]"
  by (simp add: split_n1_def takeWhile_append dropWhile_append takeWhile_no_sep)

lemma size_of_groups_single: "size_of_groups [k] = [(k, 1)]"
  by (simp add: size_of_groups_def)

lemma size_of_groups_distinct: "distinct (map fst (size_of_groups ks))"
  by (simp add: size_of_groups_def comp_def)

lemma size_of_groups_positive: "list_all (\<lambda>(k, n). 1 \<le> n) (size_of_groups ks)"
proof -
  have "0 < count_list ks k" if "k \<in> set ks" for k
    using that count_list_0_iff [of ks k] by auto
  then show ?thesis
    by (auto simp: size_of_groups_def list_all_iff Suc_le_eq)
qed

lemma stats_location_groups:
  "stats_location rs = Inr t \<Longrightarrow>
   t = size_of_groups (concat (map (\<lambda>r. location_keys (field_value r (lit ''Location''))) rs))"
  by (simp add: stats_location_char split: if_splits)

section \<open>One record more\<close>

lemma scenario_location:
  "stats_location scenario_records =
     Inr [((lit ''United States'', lit ''TX'', lit ''Austin''), 2),
          ((lit ''United States'', lit ''TX'', lit ''Dallas''), 1)]"
  by (simp add: scenario_records_def stats_location_char field_value_def has_comma_def
      location_keys_def size_of_groups_def lit_def comma_def strip_def isspace_def)

lemma scenario_company:
  "stats_company scenario_records = [(lit ''Acme'', 2)]"
  by (simp add: scenario_records_def stats_company_def groupby_dropna_safe safe_columns_mem
      field_value_def size_of_groups_def lit_eq_iff)













section \<open>Setup\<close>

lemma names_listed: "list_all (\<lambda>n. sublist n missing_line2) config_names"
  by (simp add: config_names_def missing_line2_def lit_def sublist_code)

lemma not_truthy_missing:
  assumes "name \<in> set config_names" "\<not> truthy (env name)"
  shows "\<not> all_keys_present (getenv_config env)"
  using assms by (auto simp: config_names_def all_keys_present_def getenv_config_def)

lemma setup_missing:
  assumes "\<not> all_keys_present (getenv_config (load_dotenv dotenv environ))"
  shows "module_setup dotenv environ sv w =
     (None, w\<lparr>console := console w @ [lit ''Loading environment variables...'', missing_line1,
        missing_line2]\<rparr>)"
  using assms by (simp add: module_setup_def Let_def py_print_def)

lemma main_missing:
  assumes "name \<in> set config_names" "\<not> truthy (load_dotenv dotenv environ name)"
  shows "main dotenv environ sv w =
     (None, w\<lparr>console := console w @ [lit ''Loading environment variables...'', missing_line1,
        missing_line2]\<rparr>)"
  using setup_missing [OF not_truthy_missing [of name "load_dotenv dotenv environ", OF assms]]
  by (simp add: main_def)

section \<open>Loading and running\<close>

lemma load_calls:
  "calls (load_dataframe_to_bigquery cfg sv df n w) = calls w @ [BigQueryLoad (table_id_of cfg n) df]"
  by (simp add: load_dataframe_to_bigquery_def Let_def py_print_def external_call_def
      split: option.splits service_error.splits)

lemma load_warehouse:
  "warehouse (load_dataframe_to_bigquery cfg sv df n w) =
     (if load_job sv (table_id_of cfg n) = None then (warehouse w)(table_id_of cfg n \<mapsto> df)
      else warehouse w)"
  by (simp add: load_dataframe_to_bigquery_def Let_def py_print_def external_call_def
      split: option.splits service_error.splits)

lemma logged_print: "load_failure_logged cfg n w \<Longrightarrow> load_failure_logged cfg n (py_print s w)"
  by (simp add: load_failure_logged_def py_print_def)

lemma logged_load_mono:
  "load_failure_logged cfg n w \<Longrightarrow> load_failure_logged cfg n (load_dataframe_to_bigquery cfg sv df m w)"
  by (simp add: load_dataframe_to_bigquery_def Let_def py_print_def external_call_def
      load_failure_logged_def split: option.splits service_error.splits)

lemma logged_load:
  "load_job sv (table_id_of cfg n) = Some e \<Longrightarrow>
   load_failure_logged cfg n (load_dataframe_to_bigquery cfg sv df n w)"
  by (cases e)
    (simp_all add: load_dataframe_to_bigquery_def Let_def py_print_def external_call_def
      load_failure_logged_def str_of_exception_def lit_def)

lemma table_id_inj: "table_id_of cfg a = table_id_of cfg b \<longleftrightarrow> a = b"
  by (simp add: table_id_of_def)

lemma print_calls: "calls (py_print s w) = calls w"
  and print_warehouse: "warehouse (py_print s w) = warehouse w"
  and print_console: "console (py_print s w) = console w @ [s]"
  by (simp_all add: py_print_def)

lemma load_all_calls:
  "calls (load_all cfg sv (a, b, c, d) w) =
     calls w @ [BigQueryLoad (table_id_of cfg (lit ''stats_company'')) a,
                BigQueryLoad (table_id_of cfg (lit ''stats_job_title'')) b,
                BigQueryLoad (table_id_of cfg (lit ''stats_major'')) c,
                BigQueryLoad (table_id_of cfg (lit ''stats_location'')) d]"
  by (simp add: load_all_def Let_def load_calls print_calls)

lemma load_all_last:
  "last (console (load_all cfg sv frames w)) = 10 # lit ''ETL pipeline finished successfully!''"
  by (cases frames) (simp add: load_all_def Let_def print_console)

lemma table_names_cases:
  assumes "n \<in> set table_names"
  obtains "n = lit ''stats_company''" | "n = lit ''stats_job_title''" | "n = lit ''stats_major''"
    | "n = lit ''stats_location''"
  using assms by (auto simp: table_names_def)

lemma load_all_logged:
  assumes "n \<in> set table_names" "load_job sv (table_id_of cfg n) = Some e"
  shows "load_failure_logged cfg n (load_all cfg sv (a, b, c, d) w)"
  using assms(1)
proof (cases rule: table_names_cases)
  case 1
  show ?thesis
    unfolding load_all_def Let_def prod.case 1
    by (rule logged_print, rule logged_load_mono, rule logged_load_mono, rule logged_load_mono,
        rule logged_load, rule assms(2) [unfolded 1])
next
  case 2
  show ?thesis
    unfolding load_all_def Let_def prod.case 2
    by (rule logged_print, rule logged_load_mono, rule logged_load_mono,
        rule logged_load, rule assms(2) [unfolded 2])
next
  case 3
  show ?thesis
    unfolding load_all_def Let_def prod.case 3
    by (rule logged_print, rule logged_load_mono, rule logged_load, rule assms(2) [unfolded 3])
next
  case 4
  show ?thesis
    unfolding load_all_def Let_def prod.case 4
    by (rule logged_print, rule logged_load, rule assms(2) [unfolded 4])
qed

lemma load_warehouse_at:
  "warehouse (load_dataframe_to_bigquery cfg sv df n w) t =
     (if t = table_id_of cfg n \<and> load_job sv t = None then Some df else warehouse w t)"
  by (auto simp: load_warehouse)

lemma load_all_warehouse:
  "warehouse (load_all cfg sv (a, b, c, d) w) t =
     (if t = table_id_of cfg (lit ''stats_location'') \<and> load_job sv t = None then Some d
      else if t = table_id_of cfg (lit ''stats_major'') \<and> load_job sv t = None then Some c
      else if t = table_id_of cfg (lit ''stats_job_title'') \<and> load_job sv t = None then Some b
      else if t = table_id_of cfg (lit ''stats_company'') \<and> load_job sv t = None then Some a
      else warehouse w t)"
  by (simp only: load_all_def Let_def prod.case load_warehouse_at print_warehouse)

lemma load_all_failed:
  assumes "load_job sv (table_id_of cfg n) = Some e"
  shows "warehouse (load_all cfg sv (a, b, c, d) w) (table_id_of cfg n) = warehouse w (table_id_of cfg n)"
  using assms by (simp add: load_all_warehouse)

lemma load_all_loaded:
  assumes "(n, df) \<in> set (zip table_names [a, b, c, d])" "load_job sv (table_id_of cfg n) = None"
  shows "warehouse (load_all cfg sv (a, b, c, d) w) (table_id_of cfg n) = Some df"
proof -
  from assms(1) have "(n, df) = (lit ''stats_company'', a) \<or> (n, df) = (lit ''stats_job_title'', b)
      \<or> (n, df) = (lit ''stats_major'', c) \<or> (n, df) = (lit ''stats_location'', d)"
    by (simp add: table_names_def)
  then show ?thesis
    using assms(2)
    by (elim disjE) (simp_all add: load_all_warehouse table_id_inj lit_eq_iff)
qed

lemma transform_returns:
  assumes "stats_location records = Inr groups"
  shows "\<exists>w'. transform records w =
      Inr ((frame1 (lit ''company_name'') (lit ''alumni_count'') (stats_company records),
            frame1 (lit ''job_title'') (lit ''job_count'') (stats_jobs records),
            frame1 (lit ''major'') (lit ''major_count'') (stats_major records),
            frame3 groups), w')
      \<and> calls w' = calls w \<and> warehouse w' = warehouse w"
  using assms by (simp add: transform_def Let_def print_calls print_warehouse)

lemma transform_raises:
  assumes "stats_location records = Inl e"
  shows "\<exists>w'. transform records w = Inl (e, w') \<and> calls w' = calls w \<and> warehouse w' = warehouse w"
  using assms by (simp add: transform_def Let_def print_calls print_warehouse)

lemma location_keys_length: "length (location_keys v) = (if has_comma v then 1 else 0)"
  by (simp add: location_keys_def has_comma_def split: option.splits)

lemma length_concat_keys:
  "length (concat (map (\<lambda>r. location_keys (f r)) rs)) = length (filter (\<lambda>r. has_comma (f r)) rs)"
  by (induction rs) (simp_all add: location_keys_length)

lemma location_keys_country: "k \<in> set (location_keys v) \<Longrightarrow> fst k = lit ''United States''"
  by (auto simp: location_keys_def split: option.splits if_splits)

lemma location_table_law:
  assumes "stats_location rs = Inr t"
  shows "sum_list (map snd t) = length (filter (\<lambda>r. has_comma (field_value r (lit ''Location''))) rs)"
    and "list_all (\<lambda>(k, n). fst k = lit ''United States'') t"
proof -
  have t: "t = size_of_groups (concat (map (\<lambda>r. location_keys (field_value r (lit ''Location''))) rs))"
    using assms by (rule stats_location_groups)
  show "sum_list (map snd t) = length (filter (\<lambda>r. has_comma (field_value r (lit ''Location''))) rs)"
    unfolding t by (simp only: size_of_groups_sum length_concat_keys)
  show "list_all (\<lambda>(k, n). fst k = lit ''United States'') t"
    unfolding t by (auto simp: size_of_groups_def list_all_iff dest: location_keys_country)
qed

lemma full_table_id:
  "table_id_of (getenv_config full_environ) n = lit ''proj.alumni.'' @ n"
  by (simp add: table_id_of_def getenv_config_def full_environ_def fmt_def lit_eq_iff)
    (simp add: lit_def)

section \<open>Claims\<close>

text \<open>
  C1. For every list of raw records, the counts of the company table add up to the
  number of records whose \<open>Current Company\<close> is not null, and likewise the job title
  table with \<open>Current Title\<close> and the major table with \<open>Major\<close>.
\<close>

theorem C1_counts_sum:
  "sum_list (map snd (stats_company records)) =
     length (filter (\<lambda>r. field_value r (lit ''Current Company'') \<noteq> None) records)
   \<and> sum_list (map snd (stats_jobs records)) =
     length (filter (\<lambda>r. field_value r (lit ''Current Title'') \<noteq> None) records)
   \<and> sum_list (map snd (stats_major records)) =
     length (filter (\<lambda>r. field_value r (lit ''Major'') \<noteq> None) records)"
  unfolding stats_company_def stats_jobs_def stats_major_def
  by (simp only: groupby_dropna_sum safe_columns_mem simp_thms)

theorem C1_counts_sum_witness:
  "sum_list (map snd (stats_company scenario_records)) = 2
   \<and> sum_list (map snd (stats_jobs scenario_records)) = 0
   \<and> sum_list (map snd (stats_major scenario_records)) = 0"
  using C1_counts_sum [of scenario_records]
  by (simp add: scenario_records_def field_value_def lit_eq_iff)

text \<open>
  C2. What the location step does with a \<open>Location\<close> that has no comma: beside a
  record with a comma the record is left out of the table, and when no record has a
  comma the step raises \<open>ValueError\<close>.
\<close>

theorem C2_no_comma_location_dropped:
  "stats_location
     [[lit ''Location'' \<mapsto> Some (lit ''Austin, TX'')], [lit ''Location'' \<mapsto> Some (lit ''Remote'')]]
     = Inr [((lit ''United States'', lit ''TX'', lit ''Austin''), 1)]
   \<and> stats_location [[lit ''Location'' \<mapsto> Some (lit ''Remote'')]]
     = Inl ValueError"
  by (simp add: stats_location_char field_value_def has_comma_def location_keys_def
      size_of_groups_def lit_def comma_def strip_def isspace_def)

text \<open>
  C3. A \<open>Location\<close> with a comma is split at its first comma and both parts are
  stripped. The pair (city, state) so obtained is what the location table holds for the
  record, and the city has no comma. The location is city, comma, state with whitespace
  only around the two parts; so city + ", " + state and the location are equal once all
  whitespace is removed, and city + ", " + state splits into the same pair again.
\<close>

theorem C3_location_round_trip:
  assumes "comma \<in> set location"
  shows "\<exists>city state.
      map strip (split_n1 comma location) = [city, state]
    \<and> stats_location [[lit ''Location'' \<mapsto> Some location]]
        = Inr [((lit ''United States'', state, city), 1)]
    \<and> comma \<notin> set city
    \<and> (\<exists>w1 w2 w3 w4. list_all isspace (w1 @ w2 @ w3 @ w4)
          \<and> location = w1 @ city @ w2 @ [comma] @ w3 @ state @ w4)
    \<and> filter (\<lambda>c. \<not> isspace c) (city @ lit '', '' @ state)
        = filter (\<lambda>c. \<not> isspace c) location
    \<and> map strip (split_n1 comma (city @ lit '', '' @ state)) = [city, state]"
proof -
  let ?a = "takeWhile (\<lambda>c. c \<noteq> comma) location"
  let ?b = "tl (dropWhile (\<lambda>c. c \<noteq> comma) location)"
  have sp: "split_n1 comma location = [?a, ?b]"
    using assms by (simp add: split_n1_def)
  from split_n1_comma [OF assms] sp
  have loc: "location = ?a @ [comma] @ ?b" and na: "comma \<notin> set ?a"
    by auto
  have 1: "map strip (split_n1 comma location) = [strip ?a, strip ?b]"
    by (simp add: sp)
  have 2: "stats_location [[lit ''Location'' \<mapsto> Some location]]
      = Inr [((lit ''United States'', strip ?b, strip ?a), 1)]"
    using assms
    by (simp add: stats_location_char field_value_def has_comma_def location_keys_def
        size_of_groups_single)
  obtain w1 w2 where a: "list_all isspace w1" "list_all isspace w2" "?a = w1 @ strip ?a @ w2"
    using strip_surround [of ?a] by blast
  obtain w3 w4 where b: "list_all isspace w3" "list_all isspace w4" "?b = w3 @ strip ?b @ w4"
    using strip_surround [of ?b] by blast
  have "location = (w1 @ strip ?a @ w2) @ [comma] @ (w3 @ strip ?b @ w4)"
    using loc a(3) b(3) by metis
  then have 3: "\<exists>w1 w2 w3 w4. list_all isspace (w1 @ w2 @ w3 @ w4)
      \<and> location = w1 @ strip ?a @ w2 @ [comma] @ w3 @ strip ?b @ w4"
    using a(1,2) b(1,2) by (intro exI [of _ w1] exI [of _ w2] exI [of _ w3] exI [of _ w4]) simp
  have 5: "comma \<notin> set (strip ?a)"
    using na set_strip by blast
  then have "split_n1 comma (strip ?a @ comma # 32 # strip ?b) = [strip ?a, 32 # strip ?b]"
    by (rule split_n1_append)
  moreover have l: "lit '', '' = [comma, 32]"
    by (simp add: lit_def comma_def)
  ultimately have 4: "map strip (split_n1 comma (strip ?a @ lit '', '' @ strip ?b)) = [strip ?a, strip ?b]"
    by (simp add: strip_idem strip_space_Cons)
  have "filter (\<lambda>c. \<not> isspace c) location =
      filter (\<lambda>c. \<not> isspace c) (strip ?a) @ [comma] @ filter (\<lambda>c. \<not> isspace c) (strip ?b)"
    by (subst loc, subst a(3), subst b(3))
      (simp add: a(1,2) b(1,2) filter_spaces isspace_comma)
  then have 6: "filter (\<lambda>c. \<not> isspace c) (strip ?a @ lit '', '' @ strip ?b)
      = filter (\<lambda>c. \<not> isspace c) location"
    by (simp add: l isspace_comma isspace_space)
  show ?thesis
    by (rule exI [of _ "strip ?a"], rule exI [of _ "strip ?b"]) (intro conjI 1 2 5 3 6 4)
qed

theorem C3_location_round_trip_witness:
  "comma \<in> set (lit ''Austin, TX'')
   \<and> stats_location [[lit ''Location'' \<mapsto> Some (lit ''Austin, TX'')]]
       = Inr [((lit ''United States'', lit ''TX'', lit ''Austin''), 1)]
   \<and> map strip (split_n1 comma (lit ''Austin'' @ lit '', '' @ lit ''TX'')) = [lit ''Austin'', lit ''TX'']"
proof -
  have c: "comma \<in> set (lit ''Austin, TX'')"
    by (simp add: lit_def comma_def)
  have s: "map strip (split_n1 comma (lit ''Austin, TX'')) = [lit ''Austin'', lit ''TX'']"
    by (simp add: split_n1_def strip_def isspace_def lit_def comma_def)
  from C3_location_round_trip [OF c] s c show ?thesis
    by auto
qed

text \<open>
  C4. The counts of the location table at two records with a \<open>Location\<close>, one of
  them without a comma: they add up to 1. And where the location step raises: for
  records none of which has a \<open>Location\<close> it raises \<open>AttributeError\<close>, and a run
  whose only record has a \<open>Location\<close> without a comma ends with \<open>ValueError\<close> after
  the extraction, before any load. (Where the step returns a table, its counts add up to the number of records
  whose \<open>Location\<close> has a comma and every country is \<open>United States\<close>: lemma
  \<open>location_table_law\<close>.)
\<close>

theorem C4_location_step_raises:
  "(\<exists>t. stats_location
        [[lit ''Location'' \<mapsto> Some (lit ''Austin, TX'')], [lit ''Location'' \<mapsto> Some (lit ''Remote'')]]
        = Inr t \<and> sum_list (map snd t) = 1)
   \<and> length (filter (\<lambda>r. field_value r (lit ''Location'') \<noteq> None)
        [[lit ''Location'' \<mapsto> Some (lit ''Austin, TX'')], [lit ''Location'' \<mapsto> Some (lit ''Remote'')]])
       = 2
   \<and> stats_location [[lit ''Current Company'' \<mapsto> Some (lit ''Acme'')]] = Inl AttributeError
   \<and> fst (run_etl cfg
        (sv\<lparr>get_all := Inr [[lit ''Current Company'' \<mapsto> Some (lit ''Acme''),
                              lit ''Location'' \<mapsto> Some (lit ''Remote'')]]\<rparr>) w)
       = Raised ValueError
   \<and> calls (snd (run_etl cfg
        (sv\<lparr>get_all := Inr [[lit ''Current Company'' \<mapsto> Some (lit ''Acme''),
                              lit ''Location'' \<mapsto> Some (lit ''Remote'')]]\<rparr>) w))
       = calls w @ [AirtableGetAll]"
proof -
  let ?rs = "[[lit ''Current Company'' \<mapsto> Some (lit ''Acme''),
               lit ''Location'' \<mapsto> Some (lit ''Remote'')]]"
  let ?w4 = "py_print (lit ''Successfully extracted '' @ string_of_nat (length ?rs)
      @ lit '' raw records.'')
    (external_call AirtableGetAll
      (py_print (lit ''Starting: Fetching all records from Airtable...'')
        (py_print (10 # lit ''--- EXTRACT ---'') w)))"
  have 1: "stats_location [[lit ''Current Company'' \<mapsto> Some (lit ''Acme'')]] = Inl AttributeError"
    by (simp add: stats_location_char lit_eq_iff)
  have 2: "stats_location ?rs = Inl ValueError"
    by (simp add: stats_location_char field_value_def has_comma_def lit_eq_iff)
      (simp add: lit_def comma_def)
  obtain w5 where t: "transform ?rs ?w4 = Inl (ValueError, w5)"
    and c5: "calls w5 = calls ?w4"
    using transform_raises [OF 2, of ?w4] by blast
  have c4: "calls ?w4 = calls w @ [AirtableGetAll]"
    by (simp add: py_print_def external_call_def)
  have "run_etl cfg (sv\<lparr>get_all := Inr ?rs\<rparr>) w
      = (Raised ValueError, w5)"
    unfolding run_etl_def Let_def by (simp add: t del: length_Cons list.size)
  moreover have "stats_location
        [[lit ''Location'' \<mapsto> Some (lit ''Austin, TX'')], [lit ''Location'' \<mapsto> Some (lit ''Remote'')]]
        = Inr [((lit ''United States'', lit ''TX'', lit ''Austin''), 1)]"
    by (simp add: stats_location_char field_value_def has_comma_def location_keys_def
        size_of_groups_def lit_def comma_def strip_def isspace_def)
  moreover have "length (filter (\<lambda>r. field_value r (lit ''Location'') \<noteq> None)
        [[lit ''Location'' \<mapsto> Some (lit ''Austin, TX'')], [lit ''Location'' \<mapsto> Some (lit ''Remote'')]])
       = 2"
    by (simp add: field_value_def)
  ultimately show ?thesis using 1 c5 c4 by simp
qed



text \<open>
  C6. If one of the five configuration values is missing from the environment (as
  \<open>load_dotenv\<close> leaves it), the process ends in the setup: no client is constructed
  and no call goes to a collaborator, the warehouse is as it was, and the console ends
  with the diagnostic, which names all five values.
\<close>

theorem C6_missing_configuration:
  assumes "name \<in> set config_names" "load_dotenv dotenv environ name = None"
  shows "fst (main dotenv environ sv w) = None
    \<and> calls (snd (main dotenv environ sv w)) = calls w
    \<and> warehouse (snd (main dotenv environ sv w)) = warehouse w
    \<and> console (snd (main dotenv environ sv w)) =
        console w @ [lit ''Loading environment variables...'', missing_line1, missing_line2]
    \<and> list_all (\<lambda>n. sublist n missing_line2) config_names"
proof -
  have "\<not> truthy (load_dotenv dotenv environ name)"
    using assms(2) by (simp add: truthy_def)
  from main_missing [OF assms(1) this] names_listed show ?thesis
    by simp
qed

theorem C6_missing_configuration_witness:
  "lit ''GCP_PROJECT_ID'' \<in> set config_names
   \<and> load_dotenv Map.empty Map.empty (lit ''GCP_PROJECT_ID'') = None
   \<and> fst (main Map.empty Map.empty (healthy_services scenario_records) empty_world) = None
   \<and> calls (snd (main Map.empty Map.empty (healthy_services scenario_records) empty_world)) = []
   \<and> console (snd (main Map.empty Map.empty (healthy_services scenario_records) empty_world)) =
       [lit ''Loading environment variables...'', missing_line1, missing_line2]"
proof -
  have 1: "lit ''GCP_PROJECT_ID'' \<in> set config_names"
    by (simp add: config_names_def)
  have 2: "load_dotenv Map.empty Map.empty (lit ''GCP_PROJECT_ID'') = None"
    by (simp add: load_dotenv_def)
  from C6_missing_configuration [OF 1 2, of "healthy_services scenario_records" empty_world] 1 2
  show ?thesis by (simp add: empty_world_def)
qed

text \<open>
  C7. When the extraction raises, \<open>run_etl\<close> returns at once: the only call to a
  collaborator is the \<open>get_all\<close> that failed, so no load is attempted and the
  warehouse is as it was; the console holds the two lines of the extract stage and the
  two lines of the error, so nothing of the transform or load stage ran.
\<close>

theorem C7_extraction_failure_aborts:
  assumes "get_all sv = Inl e"
  shows "fst (run_etl cfg sv w) = Returned
    \<and> warehouse (snd (run_etl cfg sv w)) = warehouse w
    \<and> calls (snd (run_etl cfg sv w)) = calls w @ [AirtableGetAll]
    \<and> console (snd (run_etl cfg sv w)) = console w @
        [10 # lit ''--- EXTRACT ---'',
         lit ''Starting: Fetching all records from Airtable...'',
         cross_mark @ lit '' ERROR: Failed to extract from Airtable. Check your Token, Base ID, and Table Name.'',
         lit ''   '' @ tree_mark @ lit '' Details: '' @ str_of_exception e]"
  using assms
  by (simp add: run_etl_def Let_def extract_failed_def py_print_def external_call_def)

theorem C7_extraction_failure_aborts_witness:
  "get_all ((healthy_services [])\<lparr>get_all := Inl (OtherException (lit ''401 Unauthorized''))\<rparr>)
     = Inl (OtherException (lit ''401 Unauthorized''))
   \<and> fst (run_etl (getenv_config full_environ)
        ((healthy_services [])\<lparr>get_all := Inl (OtherException (lit ''401 Unauthorized''))\<rparr>)
        empty_world) = Returned
   \<and> warehouse (snd (run_etl (getenv_config full_environ)
        ((healthy_services [])\<lparr>get_all := Inl (OtherException (lit ''401 Unauthorized''))\<rparr>)
        empty_world)) = Map.empty
   \<and> calls (snd (run_etl (getenv_config full_environ)
        ((healthy_services [])\<lparr>get_all := Inl (OtherException (lit ''401 Unauthorized''))\<rparr>)
        empty_world)) = [AirtableGetAll]"
proof -
  have 1: "get_all ((healthy_services [])\<lparr>get_all := Inl (OtherException (lit ''401 Unauthorized''))\<rparr>)
     = Inl (OtherException (lit ''401 Unauthorized''))"
    by simp
  from C7_extraction_failure_aborts [OF 1, of "getenv_config full_environ" empty_world] 1
  show ?thesis by (simp add: empty_world_def)
qed

text \<open>
  C8. Once the transform stage has produced the four tables, whatever the load jobs do
  (each may succeed, raise \<open>NotFound\<close> or raise anything else), \<open>run_etl\<close> returns: the
  four loads are attempted, in order; the console ends with the line of completion; a
  load that raised is logged and leaves its table in the warehouse as it was; a load
  that succeeded has replaced its table.
\<close>

theorem C8_load_failures_isolated:
  assumes "get_all sv = Inr records" "stats_location records = Inr groups"
  shows "fst (run_etl cfg sv w) = Returned
    \<and> calls (snd (run_etl cfg sv w)) = calls w @
        [AirtableGetAll,
         BigQueryLoad (table_id_of cfg (lit ''stats_company''))
           (frame1 (lit ''company_name'') (lit ''alumni_count'') (stats_company records)),
         BigQueryLoad (table_id_of cfg (lit ''stats_job_title''))
           (frame1 (lit ''job_title'') (lit ''job_count'') (stats_jobs records)),
         BigQueryLoad (table_id_of cfg (lit ''stats_major''))
           (frame1 (lit ''major'') (lit ''major_count'') (stats_major records)),
         BigQueryLoad (table_id_of cfg (lit ''stats_location'')) (frame3 groups)]
    \<and> last (console (snd (run_etl cfg sv w))) = 10 # lit ''ETL pipeline finished successfully!''
    \<and> (\<forall>n \<in> set table_names. \<forall>e. load_job sv (table_id_of cfg n) = Some e \<longrightarrow>
          load_failure_logged cfg n (snd (run_etl cfg sv w))
          \<and> warehouse (snd (run_etl cfg sv w)) (table_id_of cfg n) = warehouse w (table_id_of cfg n))
    \<and> (\<forall>(n, df) \<in> set (zip table_names
            [frame1 (lit ''company_name'') (lit ''alumni_count'') (stats_company records),
             frame1 (lit ''job_title'') (lit ''job_count'') (stats_jobs records),
             frame1 (lit ''major'') (lit ''major_count'') (stats_major records),
             frame3 groups]).
          load_job sv (table_id_of cfg n) = None \<longrightarrow>
          warehouse (snd (run_etl cfg sv w)) (table_id_of cfg n) = Some df)"
proof -
  let ?w4 = "py_print (lit ''Successfully extracted '' @ string_of_nat (length records)
      @ lit '' raw records.'')
    (external_call AirtableGetAll
      (py_print (lit ''Starting: Fetching all records from Airtable...'')
        (py_print (10 # lit ''--- EXTRACT ---'') w)))"
  let ?frames = "(frame1 (lit ''company_name'') (lit ''alumni_count'') (stats_company records),
            frame1 (lit ''job_title'') (lit ''job_count'') (stats_jobs records),
            frame1 (lit ''major'') (lit ''major_count'') (stats_major records),
            frame3 groups)"
  obtain w5 where t: "transform records ?w4 = Inr (?frames, w5)"
    and c5: "calls w5 = calls ?w4" and h5: "warehouse w5 = warehouse ?w4"
    using transform_returns [OF assms(2), of ?w4] by blast
  have r: "run_etl cfg sv w = (Returned, load_all cfg sv ?frames w5)"
    by (simp add: run_etl_def Let_def assms(1) t)
  have c4: "calls ?w4 = calls w @ [AirtableGetAll]" and h4: "warehouse ?w4 = warehouse w"
    by (simp_all add: py_print_def external_call_def)
  show ?thesis
    unfolding r fst_conv snd_conv
  proof (intro conjI ballI allI impI)
    show "Returned = Returned" ..
    show "calls (load_all cfg sv ?frames w5) = calls w @
        [AirtableGetAll,
         BigQueryLoad (table_id_of cfg (lit ''stats_company''))
           (frame1 (lit ''company_name'') (lit ''alumni_count'') (stats_company records)),
         BigQueryLoad (table_id_of cfg (lit ''stats_job_title''))
           (frame1 (lit ''job_title'') (lit ''job_count'') (stats_jobs records)),
         BigQueryLoad (table_id_of cfg (lit ''stats_major''))
           (frame1 (lit ''major'') (lit ''major_count'') (stats_major records)),
         BigQueryLoad (table_id_of cfg (lit ''stats_location'')) (frame3 groups)]"
      by (simp add: load_all_calls c5 c4)
    show "last (console (load_all cfg sv ?frames w5)) = 10 # lit ''ETL pipeline finished successfully!''"
      by (rule load_all_last)
  next
    fix n e
    assume "n \<in> set table_names" "load_job sv (table_id_of cfg n) = Some e"
    then show "load_failure_logged cfg n (load_all cfg sv ?frames w5)"
      and "warehouse (load_all cfg sv ?frames w5) (table_id_of cfg n) = warehouse w (table_id_of cfg n)"
      by (simp_all add: load_all_logged load_all_failed h5 h4)
  next
    fix x
    assume x: "x \<in> set (zip table_names
            [frame1 (lit ''company_name'') (lit ''alumni_count'') (stats_company records),
             frame1 (lit ''job_title'') (lit ''job_count'') (stats_jobs records),
             frame1 (lit ''major'') (lit ''major_count'') (stats_major records),
             frame3 groups])"
    show "case x of (n, df) \<Rightarrow> load_job sv (table_id_of cfg n) = None \<longrightarrow>
          warehouse (load_all cfg sv ?frames w5) (table_id_of cfg n) = Some df"
    proof (cases x)
      case (Pair n df)
      have "load_job sv (table_id_of cfg n) = None \<Longrightarrow>
          warehouse (load_all cfg sv ?frames w5) (table_id_of cfg n) = Some df"
        by (rule load_all_loaded [OF x [unfolded Pair]])
      then show ?thesis by (simp add: Pair)
    qed
  qed
qed

theorem C8_load_failures_isolated_witness:
  "get_all major_load_fails = Inr scenario_records
   \<and> stats_location scenario_records =
       Inr [((lit ''United States'', lit ''TX'', lit ''Austin''), 2),
            ((lit ''United States'', lit ''TX'', lit ''Dallas''), 1)]
   \<and> load_job major_load_fails (table_id_of (getenv_config full_environ) (lit ''stats_major''))
       = Some (NotFound (lit ''404 Not found: Dataset proj:alumni''))
   \<and> fst (run_etl (getenv_config full_environ) major_load_fails empty_world) = Returned
   \<and> load_failure_logged (getenv_config full_environ) (lit ''stats_major'')
        (snd (run_etl (getenv_config full_environ) major_load_fails empty_world))
   \<and> warehouse (snd (run_etl (getenv_config full_environ) major_load_fails empty_world))
        (table_id_of (getenv_config full_environ) (lit ''stats_major'')) = None
   \<and> warehouse (snd (run_etl (getenv_config full_environ) major_load_fails empty_world))
        (table_id_of (getenv_config full_environ) (lit ''stats_location''))
       = Some (frame3 [((lit ''United States'', lit ''TX'', lit ''Austin''), 2),
            ((lit ''United States'', lit ''TX'', lit ''Dallas''), 1)])"
proof -
  let ?cfg = "getenv_config full_environ"
  have 1: "get_all major_load_fails = Inr scenario_records"
    by (simp add: major_load_fails_def healthy_services_def)
  have 2: "load_job major_load_fails (table_id_of ?cfg (lit ''stats_major''))
       = Some (NotFound (lit ''404 Not found: Dataset proj:alumni''))"
    by (simp add: major_load_fails_def full_table_id) (simp add: lit_def)
  have 3: "load_job major_load_fails (table_id_of ?cfg (lit ''stats_location'')) = None"
    by (simp add: major_load_fails_def full_table_id) (simp add: lit_def)
  have 4: "lit ''stats_major'' \<in> set table_names"
    by (simp add: table_names_def)
  have 5: "(lit ''stats_location'', frame3 [((lit ''United States'', lit ''TX'', lit ''Austin''), 2),
            ((lit ''United States'', lit ''TX'', lit ''Dallas''), 1)])
      \<in> set (zip table_names
            [frame1 (lit ''company_name'') (lit ''alumni_count'') (stats_company scenario_records),
             frame1 (lit ''job_title'') (lit ''job_count'') (stats_jobs scenario_records),
             frame1 (lit ''major'') (lit ''major_count'') (stats_major scenario_records),
             frame3 [((lit ''United States'', lit ''TX'', lit ''Austin''), 2),
            ((lit ''United States'', lit ''TX'', lit ''Dallas''), 1)]])"
    by (simp add: table_names_def)
  note c8 = C8_load_failures_isolated [OF 1 scenario_location, of ?cfg empty_world]
  from c8 have a: "fst (run_etl ?cfg major_load_fails empty_world) = Returned"
    by (rule conjunct1)
  from c8 4 2 have b: "load_failure_logged ?cfg (lit ''stats_major'')
        (snd (run_etl ?cfg major_load_fails empty_world))
      \<and> warehouse (snd (run_etl ?cfg major_load_fails empty_world))
        (table_id_of ?cfg (lit ''stats_major'')) = warehouse empty_world (table_id_of ?cfg (lit ''stats_major''))"
    by blast
  from c8 5 3 have c: "warehouse (snd (run_etl ?cfg major_load_fails empty_world))
        (table_id_of ?cfg (lit ''stats_location''))
       = Some (frame3 [((lit ''United States'', lit ''TX'', lit ''Austin''), 2),
            ((lit ''United States'', lit ''TX'', lit ''Dallas''), 1)])"
    by blast
  have d: "warehouse empty_world (table_id_of ?cfg (lit ''stats_major'')) = None"
    by (simp add: empty_world_def)
  from 1 scenario_location 2 a b c d show ?thesis
    by simp
qed

text \<open>
  C9. A configuration value that is present and empty is treated as a missing one: the
  process ends in the setup, with no call to a collaborator and the same diagnostic,
  exactly as it does for an environment in which a value is missing.
\<close>

theorem C9_empty_configuration_value:
  assumes "name \<in> set config_names" "load_dotenv dotenv environ name = Some []"
    and "name' \<in> set config_names" "load_dotenv dotenv' environ' name' = None"
  shows "fst (main dotenv environ sv w) = None
    \<and> calls (snd (main dotenv environ sv w)) = calls w
    \<and> console (snd (main dotenv environ sv w)) =
        console w @ [lit ''Loading environment variables...'', missing_line1, missing_line2]
    \<and> main dotenv environ sv w = main dotenv' environ' sv w"
proof -
  have 1: "\<not> truthy (load_dotenv dotenv environ name)"
    using assms(2) by (simp add: truthy_def)
  have 2: "\<not> truthy (load_dotenv dotenv' environ' name')"
    using assms(4) by (simp add: truthy_def)
  from main_missing [OF assms(1) 1] main_missing [OF assms(3) 2] show ?thesis
    by simp
qed

theorem C9_empty_configuration_value_witness:
  "lit ''AIRTABLE_API_KEY'' \<in> set config_names
   \<and> load_dotenv Map.empty (full_environ(lit ''AIRTABLE_API_KEY'' \<mapsto> [])) (lit ''AIRTABLE_API_KEY'') = Some []
   \<and> load_dotenv Map.empty Map.empty (lit ''AIRTABLE_API_KEY'') = None
   \<and> fst (main Map.empty (full_environ(lit ''AIRTABLE_API_KEY'' \<mapsto> []))
           (healthy_services scenario_records) empty_world) = None
   \<and> calls (snd (main Map.empty (full_environ(lit ''AIRTABLE_API_KEY'' \<mapsto> []))
           (healthy_services scenario_records) empty_world)) = []
   \<and> main Map.empty (full_environ(lit ''AIRTABLE_API_KEY'' \<mapsto> []))
           (healthy_services scenario_records) empty_world
       = main Map.empty Map.empty (healthy_services scenario_records) empty_world"
proof -
  have 1: "lit ''AIRTABLE_API_KEY'' \<in> set config_names"
    by (simp add: config_names_def)
  have 2: "load_dotenv Map.empty (full_environ(lit ''AIRTABLE_API_KEY'' \<mapsto> [])) (lit ''AIRTABLE_API_KEY'') = Some []"
    by (simp add: load_dotenv_def)
  have 3: "load_dotenv Map.empty Map.empty (lit ''AIRTABLE_API_KEY'') = None"
    by (simp add: load_dotenv_def)
  from C9_empty_configuration_value [OF 1 2 1 3, of "healthy_services scenario_records" empty_world] 1 2 3
  show ?thesis by (auto simp: empty_world_def)
qed

text \<open>
  C10. Each of the four tables is a frequency table: no key occurs in two rows and
  every count is at least one. The location table is the one the location step
  returns, when it returns one.
\<close>

theorem C10_frequency_tables:
  "distinct (map fst (stats_company rs)) \<and> list_all (\<lambda>(k, n). 1 \<le> n) (stats_company rs)
   \<and> distinct (map fst (stats_jobs rs)) \<and> list_all (\<lambda>(k, n). 1 \<le> n) (stats_jobs rs)
   \<and> distinct (map fst (stats_major rs)) \<and> list_all (\<lambda>(k, n). 1 \<le> n) (stats_major rs)
   \<and> (\<forall>t. stats_location rs = Inr t \<longrightarrow>
         distinct (map fst t) \<and> list_all (\<lambda>(k, n). 1 \<le> n) t)"
  unfolding stats_company_def stats_jobs_def stats_major_def
  by (auto simp only: groupby_dropna_safe safe_columns_mem size_of_groups_distinct
      size_of_groups_positive dest!: stats_location_groups)

theorem C10_frequency_tables_witness:
  "stats_location scenario_records =
     Inr [((lit ''United States'', lit ''TX'', lit ''Austin''), 2),
          ((lit ''United States'', lit ''TX'', lit ''Dallas''), 1)]
   \<and> distinct (map fst [((lit ''United States'', lit ''TX'', lit ''Austin''), 2::nat),
          ((lit ''United States'', lit ''TX'', lit ''Dallas''), 1)])
   \<and> list_all (\<lambda>(k, n). 1 \<le> n) [((lit ''United States'', lit ''TX'', lit ''Austin''), 2::nat),
          ((lit ''United States'', lit ''TX'', lit ''Dallas''), 1)]"
  using C10_frequency_tables [of scenario_records] scenario_location
  by simp

end
